theory Spec2Isabelle
  imports Main
begin

section \<open>vCard menu helper: icon resolution and record flattening\<close>

text \<open>
  A shallow embedding of \<^verbatim>\<open>src/TypeScript/menu-helper.ts\<close> (the JavaScript build
  under \<^verbatim>\<open>src/JavaScript\<close> is the same program without the type annotations).

  Conventions of the embedding:
  \<^item> a JavaScript string is a \<open>string\<close>, one \<open>char\<close> per code unit (code units up to
    0xFF); a value that is a string or \<^verbatim>\<open>undefined\<close> is a \<open>string option\<close>, with
    \<open>None\<close> for \<^verbatim>\<open>undefined\<close>;
  \<^item> a JavaScript number is a \<open>number\<close>: an integer, NaN, or any other double. An
    integer below \<open>2 ^ 53\<close> in magnitude is held exactly and printed as its decimal
    digits; how a larger one is rounded and printed is the platform's;
  \<^item> the services of the browser and of the language run-time that the program
    calls (XMLHttpRequest, DOMParser and XMLSerializer, btoa, the canvas, the printing
    of large numbers, the members every object inherits) are the fields of a
    \<open>platform\<close> record;
  \<^item> a function that can throw returns \<open>error + 'a\<close>; a promise is a value of type
    \<open>'a promise\<close>, fulfilled, rejected or never settled.
\<close>

subsection \<open>JavaScript values\<close>

type_synonym jsstring = "string option"

definition truthy :: "jsstring \<Rightarrow> bool" where
  \<comment> \<open>ToBoolean on a string or undefined: only a non-empty string is true.\<close>
  "truthy v = (case v of None \<Rightarrow> False | Some s \<Rightarrow> s \<noteq> [])"

definition orElse :: "jsstring \<Rightarrow> jsstring \<Rightarrow> jsstring" where
  \<comment> \<open>\<^verbatim>\<open>a || b\<close>\<close>
  "orElse a b = (if truthy a then a else b)"

definition toString :: "jsstring \<Rightarrow> string" where
  \<comment> \<open>ToString, as a template literal or parseInt applies it.\<close>
  "toString v = (case v of None \<Rightarrow> ''undefined'' | Some s \<Rightarrow> s)"

definition nthOpt :: "'a list \<Rightarrow> nat \<Rightarrow> 'a option" where
  \<comment> \<open>Array destructuring: the element at an index, undefined past the end.\<close>
  "nthOpt xs i = (if i < length xs then Some (xs ! i) else None)"

fun startsWith :: "string \<Rightarrow> string \<Rightarrow> bool" where
  "startsWith s [] = True"
| "startsWith [] (p # ps) = False"
| "startsWith (c # cs) (p # ps) = (c = p \<and> startsWith cs ps)"

fun includesStr :: "string \<Rightarrow> string \<Rightarrow> bool" where
  \<comment> \<open>String.prototype.includes\<close>
  "includesStr [] p = (p = [])"
| "includesStr (c # cs) p = (startsWith (c # cs) p \<or> includesStr cs p)"

function splitStr :: "string \<Rightarrow> string \<Rightarrow> string list" where
  \<comment> \<open>The pieces of a string between the successive occurrences of a non-empty
      separator, found left to right.\<close>
  "splitStr sep [] = [[]]"
| "splitStr sep (c # cs) =
     (if sep \<noteq> [] \<and> startsWith (c # cs) sep
      then [] # splitStr sep (drop (length sep) (c # cs))
      else (case splitStr sep cs of
              [] \<Rightarrow> [[c]]
            | p # ps \<Rightarrow> (c # p) # ps))"
  by pat_completeness auto
termination
  by (relation "measure (\<lambda>(sep, s). length s)") (auto simp: neq_Nil_conv)

definition jsSplit :: "string \<Rightarrow> string \<Rightarrow> string list" where
  \<comment> \<open>String.prototype.split with a string separator; the empty separator cuts
      between all code units, and the empty string gives one empty piece.\<close>
  "jsSplit s sep =
     (if sep = [] then map (\<lambda>c. [c]) s else splitStr sep s)"

subsection \<open>Errors, promises and platform services\<close>

datatype error = TypeError | NetworkError

datatype 'a promise = Fulfilled 'a | Rejected error | Pending

datatype xhr_result = Response nat string | SendFailed

text \<open>The effects a resolution performs, in the order it performs them.\<close>

datatype event = Fetch string string | Recolor | Encode | Raster

text \<open>
  A member that every object inherits from \<^verbatim>\<open>Object.prototype\<close>, with the text its
  value converts to when a string is appended to it: a data member such as
  \<^verbatim>\<open>constructor\<close>, which an assignment to the name shadows by a property of the
  object's own, or an accessor such as \<^verbatim>\<open>__proto__\<close>, whose setter ignores the
  assignment of a string.
\<close>

datatype member = Data string | Accessor string

record platform =
  xhrSend :: "string \<Rightarrow> string \<Rightarrow> xhr_result"
  recolorSvg :: "string \<Rightarrow> string \<Rightarrow> string"
  btoa :: "string \<Rightarrow> string"
  canvas :: "string \<Rightarrow> jsstring \<Rightarrow> jsstring promise"
  numberText :: "int \<Rightarrow> string"
  objectPrototype :: "string \<Rightarrow> member option"

text \<open>
  \<^item> \<open>xhrSend url mime\<close>: the synchronous GET of \<open>url\<close> with the response read as
    \<open>mime\<close>: the status and the response text, or \<open>SendFailed\<close> when \<^verbatim>\<open>send\<close> throws;
  \<^item> \<open>recolorSvg markup color\<close>: the markup parsed, every \<^verbatim>\<open>path\<close> element given the
    fill and stroke \<open>color\<close>, and the document serialised;
  \<^item> \<open>btoa\<close>: base64 of a string of bytes;
  \<^item> \<open>canvas src fill\<close>: the promise \<^verbatim>\<open>convertSvgToPng\<close> returns for the image source
    \<open>src\<close> drawn over a rounded rectangle of colour \<open>fill\<close> (a random colour of
    \<^verbatim>\<open>getRandomColor\<close> when \<open>fill\<close> is false); it is fulfilled with the canvas's data
    URL once the image has loaded, rejected when the canvas calls throw, and never
    settled when the image does not load;
  \<^item> \<open>numberText i\<close>: what is printed for the number that stands for an integer \<open>i\<close>
    of magnitude \<open>2 ^ 53\<close> or more: the digits of the double it is rounded to, in
    exponent form from \<open>10 ^ 21\<close> (\<^verbatim>\<open>1e+21\<close>), \<^verbatim>\<open>Infinity\<close> beyond the doubles;
  \<^item> \<open>objectPrototype name\<close>: the inherited member of that name, if there is one.
\<close>

subsection \<open>Numbers\<close>

text \<open>
  \<open>Integer i\<close> is the number JavaScript holds for the integer \<open>i\<close>, \<open>Other t\<close> a number
  that is neither an integer nor NaN (400.5, say), named by the text \<open>t\<close> that is
  printed for it.
\<close>

datatype number = Integer int | NaN | Other string

definition truthyNumber :: "number \<Rightarrow> bool" where
  \<comment> \<open>ToBoolean on a number: 0 and NaN are false.\<close>
  "truthyNumber w = (case w of Integer i \<Rightarrow> i \<noteq> 0 | NaN \<Rightarrow> False | Other t \<Rightarrow> True)"

fun showNat :: "nat \<Rightarrow> string" where
  "showNat n =
     (if n < 10 then [''0123456789'' ! n]
      else showNat (n div 10) @ [''0123456789'' ! (n mod 10)])"

declare showNat.simps [simp del]

definition showInt :: "int \<Rightarrow> string" where
  \<comment> \<open>The decimal digits of an integer, with its sign.\<close>
  "showInt i = (if i < 0 then ''-'' @ showNat (nat (- i)) else showNat (nat i))"

definition numberToString :: "platform \<Rightarrow> number \<Rightarrow> string" where
  \<comment> \<open>Number to string, as a template literal or a property key applies it.\<close>
  "numberToString P w =
     (case w of
        Integer i \<Rightarrow> if \<bar>i\<bar> < 2 ^ 53 then showInt i else numberText P i
      | NaN \<Rightarrow> ''NaN''
      | Other t \<Rightarrow> t)"

subsection \<open>parseInt\<close>

definition isWhiteSpace :: "char \<Rightarrow> bool" where
  \<comment> \<open>TAB, LF, VT, FF, CR, SP and NBSP: the white space and line terminators
      among the code units up to 0xFF.\<close>
  "isWhiteSpace c =
     (c \<in> {CHR 0x09, CHR 0x0A, CHR 0x0B, CHR 0x0C, CHR 0x0D, CHR 0x20, CHR 0xA0})"

definition digitValue :: "char \<Rightarrow> nat option" where
  "digitValue c =
     (let n = of_char c :: nat in
      if 48 \<le> n \<and> n \<le> 57 then Some (n - 48)
      else if 97 \<le> n \<and> n \<le> 122 then Some (n - 87)
      else if 65 \<le> n \<and> n \<le> 90 then Some (n - 55)
      else None)"

definition isDigit :: "nat \<Rightarrow> char \<Rightarrow> bool" where
  "isDigit radix c = (case digitValue c of None \<Rightarrow> False | Some d \<Rightarrow> d < radix)"

definition digitsValue :: "nat \<Rightarrow> string \<Rightarrow> nat" where
  "digitsValue radix ds = foldl (\<lambda>acc c. acc * radix + the (digitValue c)) 0 ds"

definition parseInt :: "jsstring \<Rightarrow> number" where
  \<comment> \<open>parseInt with no radix argument. Leading white space is skipped, a sign is
      read, a \<^verbatim>\<open>0x\<close> prefix selects radix 16, and the longest run of digits is the
      integer the result stands for; with no digit the result is NaN.\<close>
  "parseInt v =
     (let s = dropWhile isWhiteSpace (toString v);
          neg = startsWith s ''-'';
          s1 = (if startsWith s ''-'' \<or> startsWith s ''+'' then tl s else s);
          hex = (startsWith s1 ''0x'' \<or> startsWith s1 ''0X'');
          radix = (if hex then 16 else 10);
          s2 = (if hex then drop 2 s1 else s1);
          ds = takeWhile (isDigit radix) s2
      in if ds = [] then NaN
         else Integer ((if neg then -1 else 1) * int (digitsValue radix ds)))"

subsection \<open>Configuration\<close>

text \<open>
  The globals that \<^verbatim>\<open>prepareVariables\<close> sets and icon resolution reads. The size,
  offset, radius and shadow globals are read by the canvas code only, which is a
  platform service here.
\<close>

record config =
  ICONS_COLOR :: string
  ICONS_BACKGROUND :: jsstring
  ICONS_WEIGHT :: number

record InitialParameters =
  iconsColor :: jsstring
  iconsBgColor :: jsstring
  iconsWeight :: "number option"

definition orNumber :: "number option \<Rightarrow> number \<Rightarrow> number" where
  \<comment> \<open>\<^verbatim>\<open>a || b\<close> on a number that may be undefined\<close>
  "orNumber a b = (case a of None \<Rightarrow> b | Some w \<Rightarrow> if truthyNumber w then w else b)"

definition prepareVariables :: "InitialParameters \<Rightarrow> config" where
  "prepareVariables parameters =
     \<lparr> ICONS_COLOR = toString (orElse (iconsColor parameters) (Some ''white'')),
       ICONS_BACKGROUND = iconsBgColor parameters,
       ICONS_WEIGHT = orNumber (iconsWeight parameters) (Integer 400) \<rparr>"

subsection \<open>Icon reference resolver\<close>

datatype ImageType = Base64 | Svg | Jpg | Absent

record SvgColors =
  iconColor :: jsstring
  bgColor :: jsstring

definition separators :: "char list" where
  "separators =
     [CHR '';'', CHR '':'', CHR ''|'', CHR ''/'', CHR ''='', CHR ''+'', CHR ''*'',
      CHR '','', CHR ''.'', CHR ''#'']"

definition getIconSeparator :: "jsstring \<Rightarrow> char option" where
  "getIconSeparator icon =
     (if \<not> truthy icon then None
      else find (\<lambda>separator. includesStr (the icon) [separator]) separators)"

definition iconHost :: string where
  "iconHost = ''https://fonts.gstatic.com/s/i/short-term/release/materialsymbols''"

definition getMaterialIconLink ::
  "platform \<Rightarrow> jsstring \<Rightarrow> number \<Rightarrow> jsstring \<Rightarrow> string" where
  "getMaterialIconLink P icon weight style =
     (let iconWeight = (if weight = Integer 400 then ''default''
                        else ''wght'' @ numberToString P weight);
          iconStyle = (if style \<noteq> Some ''rounded'' \<and> style \<noteq> Some ''outlined''
                       then ''rounded'' else the style)
      in iconHost @ iconStyle @ ''/'' @ toString icon @ ''/'' @ iconWeight @ ''/48px.svg'')"

definition orWeight :: "number \<Rightarrow> number \<Rightarrow> number" where
  \<comment> \<open>\<^verbatim>\<open>parseInt(w) || ICONS_WEIGHT\<close>: NaN and 0 are false.\<close>
  "orWeight parsed dflt = (if truthyNumber parsed then parsed else dflt)"

definition getMaterialIcon :: "platform \<Rightarrow> config \<Rightarrow> jsstring \<Rightarrow> jsstring" where
  "getMaterialIcon P cfg icon =
     (if \<not> truthy icon then None
      else case getIconSeparator icon of
             None \<Rightarrow> Some (getMaterialIconLink P icon (ICONS_WEIGHT cfg) None)
           | Some separator \<Rightarrow>
               (let parts = jsSplit (the icon) [separator];
                    iconName = nthOpt parts 0;
                    iconWeight = nthOpt parts 3;
                    iconStyle = nthOpt parts 4
                in Some (getMaterialIconLink P iconName
                           (orWeight (parseInt iconWeight) (ICONS_WEIGHT cfg)) iconStyle)))"

definition getSvgColors :: "jsstring \<Rightarrow> SvgColors option" where
  "getSvgColors icon =
     (if \<not> truthy icon then None
      else case getIconSeparator icon of
             None \<Rightarrow> None
           | Some separator \<Rightarrow>
               (let parts = jsSplit (the icon) [separator]
                in Some \<lparr> iconColor = nthOpt parts 1, bgColor = nthOpt parts 2 \<rparr>))"

definition cutBase64DataType :: "jsstring \<Rightarrow> jsstring" where
  "cutBase64DataType base64 =
     (if \<not> truthy base64 \<or> \<not> includesStr (the base64) ''base64,'' then base64
      else nthOpt (jsSplit (the base64) ''base64,'') 1)"

record ImageDataInfo =
  base64Data :: string
  mimeType :: string

record ImageInfo =
  type :: ImageType
  source :: jsstring
  svgColors :: "SvgColors option"

definition IMAGE_DATA_INFO :: "ImageType \<Rightarrow> ImageDataInfo option" where
  "IMAGE_DATA_INFO t =
     (case t of
        Svg \<Rightarrow> Some \<lparr> base64Data = ''image/svg+xml'', mimeType = ''image/svg+xml'' \<rparr>
      | Jpg \<Rightarrow> Some \<lparr> base64Data = ''image/jpeg'',
                       mimeType = ''text/plain; charset=x-user-defined'' \<rparr>
      | _ \<Rightarrow> None)"

subsection \<open>Transformation\<close>

definition getImageFromUrl ::
  "platform \<Rightarrow> jsstring \<Rightarrow> ImageDataInfo option \<Rightarrow> event list \<times> (error + jsstring)" where
  \<comment> \<open>Reading \<^verbatim>\<open>info.mimeType\<close> of an undefined \<^verbatim>\<open>info\<close> throws a TypeError, after
      \<^verbatim>\<open>open\<close> and before \<^verbatim>\<open>send\<close>.\<close>
  "getImageFromUrl P url info =
     (case info of
        None \<Rightarrow> ([], Inl TypeError)
      | Some i \<Rightarrow>
          (case xhrSend P (toString url) (mimeType i) of
             SendFailed \<Rightarrow> ([Fetch (toString url) (mimeType i)], Inl NetworkError)
           | Response status responseText \<Rightarrow>
               ([Fetch (toString url) (mimeType i)],
                Inr (if status \<noteq> 200 then None else Some responseText))))"

definition svgIconColor :: "SvgColors option \<Rightarrow> jsstring" where
  \<comment> \<open>\<^verbatim>\<open>image.svgColors?.iconColor\<close>\<close>
  "svgIconColor c = (case c of None \<Rightarrow> None | Some k \<Rightarrow> iconColor k)"

definition svgBgColor :: "SvgColors option \<Rightarrow> jsstring" where
  \<comment> \<open>\<^verbatim>\<open>image.svgColors?.bgColor\<close>\<close>
  "svgBgColor c = (case c of None \<Rightarrow> None | Some k \<Rightarrow> bgColor k)"

definition getColorizedSvgBase64 ::
  "platform \<Rightarrow> config \<Rightarrow> string \<Rightarrow> ImageInfo \<Rightarrow> event list \<times> jsstring" where
  "getColorizedSvgBase64 P cfg imageResponse img =
     (if type img \<noteq> Svg then ([], None)
      else let color = toString (orElse (svgIconColor (svgColors img))
                                         (Some (ICONS_COLOR cfg)))
           in ([Recolor], Some (btoa P (recolorSvg P imageResponse color))))"

definition getImageBas64 :: "platform \<Rightarrow> string \<Rightarrow> event list \<times> jsstring" where
  "getImageBas64 P imageResponse =
     (let binary = map (\<lambda>c. char_of ((of_char c :: nat) mod 256)) imageResponse
      in ([Encode], Some (btoa P binary)))"

definition convertSvgToPng ::
  "platform \<Rightarrow> config \<Rightarrow> jsstring \<Rightarrow> ImageInfo \<Rightarrow> ImageDataInfo
     \<Rightarrow> event list \<times> jsstring promise" where
  "convertSvgToPng P cfg base64 img info =
     ([Raster],
      canvas P (''data:'' @ base64Data info @ '';base64,'' @ toString base64)
        (orElse (svgBgColor (svgColors img)) (ICONS_BACKGROUND cfg)))"

definition convertImageUrlToBase64 ::
  "platform \<Rightarrow> config \<Rightarrow> ImageInfo \<Rightarrow> event list \<times> (error + jsstring promise)" where
  "convertImageUrlToBase64 P cfg img =
     (if type img = Base64 then ([], Inr (Fulfilled (source img)))
      else
        let info = IMAGE_DATA_INFO (type img) in
        case getImageFromUrl P (source img) info of
          (ev, Inl e) \<Rightarrow> (ev, Inl e)
        | (ev, Inr imageResponse) \<Rightarrow>
            if \<not> truthy imageResponse then (ev, Inr (Fulfilled (Some [])))
            else
              let (ev1, colorized) =
                    getColorizedSvgBase64 P cfg (the imageResponse) img;
                  (ev2, base64) =
                    (if truthy colorized then ([], colorized)
                     else getImageBas64 P (the imageResponse))
              in if type img = Svg
                 then (let (ev3, p) = convertSvgToPng P cfg base64 img (the info)
                       in (ev @ ev1 @ ev2 @ ev3, Inr p))
                 else (ev @ ev1 @ ev2, Inr (Fulfilled base64)))"


subsection \<open>Menu nodes and the decorator\<close>

datatype ident = IdString string | IdNumber number

datatype MenuNode =
  MenuNode (id_of: ident) (title: string) (subtitle: jsstring)
    (children: "MenuNode list option") (icon: jsstring) (base64: jsstring)
    (imageUrl: jsstring) (base64Promise: "jsstring promise option")

definition hasLength :: "'a list option \<Rightarrow> bool" where
  \<comment> \<open>\<^verbatim>\<open>children?.length\<close> as a condition\<close>
  "hasLength xs = (case xs of None \<Rightarrow> False | Some l \<Rightarrow> l \<noteq> [])"

definition imageInfoOf :: "platform \<Rightarrow> config \<Rightarrow> MenuNode \<Rightarrow> ImageInfo" where
  \<comment> \<open>The \<^verbatim>\<open>imageInfo\<close> object literal of \<^verbatim>\<open>updateMenuItems\<close>. A \<^verbatim>\<open>type\<close> that is
      undefined or the empty string is \<open>Absent\<close>.\<close>
  "imageInfoOf P cfg menuItem =
     \<lparr> type = (if truthy (base64 menuItem) then Base64
               else if truthy (icon menuItem) then Svg
               else if truthy (imageUrl menuItem) then Jpg
               else Absent),
       source = orElse (orElse (cutBase64DataType (base64 menuItem))
                               (getMaterialIcon P cfg (icon menuItem)))
                       (imageUrl menuItem),
       svgColors = getSvgColors (icon menuItem) \<rparr>"

definition deleteItemProperties :: "MenuNode \<Rightarrow> MenuNode" where
  "deleteItemProperties item =
     MenuNode (id_of item) (title item)
       (if \<not> truthy (subtitle item) then None else subtitle item)
       (if \<not> hasLength (children item) then None else children item)
       None None None (base64Promise item)"

fun updateMenuItems ::
  "platform \<Rightarrow> config \<Rightarrow> MenuNode list \<Rightarrow> event list \<times> (error + MenuNode list)"
and updateMenuItem ::
  "platform \<Rightarrow> config \<Rightarrow> MenuNode \<Rightarrow> event list \<times> (error + MenuNode)"
where
  "updateMenuItems P cfg [] = ([], Inr [])"
| "updateMenuItems P cfg (menuItem # rest) =
     (case updateMenuItem P cfg menuItem of
        (ev, Inl e) \<Rightarrow> (ev, Inl e)
      | (ev, Inr item') \<Rightarrow>
          (case updateMenuItems P cfg rest of
             (ev', Inl e) \<Rightarrow> (ev @ ev', Inl e)
           | (ev', Inr rest') \<Rightarrow> (ev @ ev', Inr (item' # rest'))))"
| "updateMenuItem P cfg (MenuNode i t st ch ic b64 url pr) =
     (let menuItem = MenuNode i t st ch ic b64 url pr;
          imageInfo = imageInfoOf P cfg menuItem;
          item = deleteItemProperties menuItem
      in case convertImageUrlToBase64 P cfg imageInfo of
           (ev, Inl e) \<Rightarrow> (ev, Inl e)
         | (ev, Inr p) \<Rightarrow>
             (case ch of
                Some (c # cs) \<Rightarrow>
                  (case updateMenuItems P cfg (c # cs) of
                     (ev', Inl e) \<Rightarrow> (ev @ ev', Inl e)
                   | (ev', Inr cs') \<Rightarrow>
                       (ev @ ev',
                        Inr (MenuNode (id_of item) (title item) (subtitle item)
                               (Some cs') None None None (Some p))))
              | _ \<Rightarrow>
                  (ev, Inr (MenuNode (id_of item) (title item) (subtitle item)
                              (children item) None None None (Some p)))))"

subsection \<open>Conversion to contact records\<close>











subsection \<open>Notions the properties are stated with\<close>










text \<open>The weight \<^verbatim>\<open>getMaterialIcon\<close> hands to \<^verbatim>\<open>getMaterialIconLink\<close>.\<close>

definition resolvedWeight :: "config \<Rightarrow> jsstring \<Rightarrow> number" where
  "resolvedWeight cfg ref =
     (case getIconSeparator ref of
        None \<Rightarrow> ICONS_WEIGHT cfg
      | Some separator \<Rightarrow>
          orWeight (parseInt (nthOpt (jsSplit (the ref) [separator]) 3)) (ICONS_WEIGHT cfg))"


text \<open>
  Concrete inputs. The configuration \<^verbatim>\<open>prepareVariables\<close> builds from no parameters.
  A browser in which every request is answered with status 404, \<open>10 ^ 21\<close> is printed
  \<^verbatim>\<open>1e+21\<close> (no other large integer is printed below), and the inherited members are
  those of \<^verbatim>\<open>Object.prototype\<close>. The decorated form of the menu
  \<^verbatim>\<open>[{id:7,title:"P",children:[{id:"c",title:"C",subtitle:"sub"}]}]\<close> whose child
  resolved to a data URL, and that of
  \<^verbatim>\<open>[{id:"constructor",title:"P",children:[{id:"c",title:"C"}]}]\<close> without images.
\<close>

definition defaultConfig :: config where
  "defaultConfig =
     prepareVariables \<lparr> iconsColor = None, iconsBgColor = None, iconsWeight = None \<rparr>"

definition inheritedMembers :: "string \<Rightarrow> member option" where
  "inheritedMembers name =
     (if name = ''__proto__'' then Some (Accessor ''[object Object]'')
      else if name = ''constructor'' then Some (Data ''function Object() { [native code] }'')
      else if name \<in> set [''toString'', ''toLocaleString'', ''valueOf'', ''hasOwnProperty'',
                           ''isPrototypeOf'', ''propertyIsEnumerable'',
                           ''__defineGetter__'', ''__defineSetter__'',
                           ''__lookupGetter__'', ''__lookupSetter__'']
      then Some (Data (''function '' @ name @ ''() { [native code] }''))
      else None)"

definition notFoundPlatform :: platform where
  "notFoundPlatform =
     \<lparr> xhrSend = (\<lambda>url mime. Response 404 ''Not Found''),
       recolorSvg = (\<lambda>markup color. markup),
       btoa = (\<lambda>bytes. bytes),
       canvas = (\<lambda>src fill. Pending),
       numberText = (\<lambda>i. if i = 10 ^ 21 then ''1e+21'' else ''Infinity''),
       objectPrototype = inheritedMembers \<rparr>"



section \<open>Properties\<close>

declare updateMenuItem.simps [simp del]

subsection \<open>Nodes without an image source\<close>

lemma absent_convert_throws:
  "type img = Absent \<Longrightarrow> convertImageUrlToBase64 P cfg img = ([], Inl TypeError)"
  by (simp add: convertImageUrlToBase64_def IMAGE_DATA_INFO_def getImageFromUrl_def)

lemma imageInfoOf_no_fields:
  "base64 n = None \<Longrightarrow> icon n = None \<Longrightarrow> imageUrl n = None \<Longrightarrow>
     type (imageInfoOf P cfg n) = Absent \<and> source (imageInfoOf P cfg n) = None"
  by (simp add: imageInfoOf_def truthy_def orElse_def cutBase64DataType_def
        getMaterialIcon_def)

lemma updateMenuItem_absent:
  "base64 n = None \<Longrightarrow> icon n = None \<Longrightarrow> imageUrl n = None \<Longrightarrow>
     updateMenuItem P cfg n = ([], Inl TypeError)"
  by (cases n)
     (simp add: updateMenuItem.simps absent_convert_throws imageInfoOf_no_fields Let_def)

text \<open>
  Claim C1. A node with none of the three image-source fields should be decorated with
  a promise that resolves to the empty string, and nothing should throw. On the menu of
  the specification's first scenario, \<^verbatim>\<open>[{id:"a",title:"A"},{id:"b",title:"B"}]\<close>, the
  decorator throws instead: the image type is undefined, \<^verbatim>\<open>IMAGE_DATA_INFO.get\<close> finds no
  entry for it, and \<^verbatim>\<open>getImageFromUrl\<close> reads \<^verbatim>\<open>info.mimeType\<close> of that undefined entry.
  The TypeError leaves \<^verbatim>\<open>updateMenuItems\<close> at the first node, on every platform and
  configuration, before any request is sent.
\<close>

theorem absent_menu_throws:
  "updateMenuItems P cfg
     [MenuNode (IdString ''a'') ''A'' None None None None None None,
      MenuNode (IdString ''b'') ''B'' None None None None None None]
   = ([], Inl TypeError)"
  by (simp add: updateMenuItem_absent)

text \<open>
  Claim C2. Decorating an already decorated node should not throw and should classify
  it as absent. The node \<^verbatim>\<open>{id:"a",title:"A",base64:"AAAA"}\<close> is decorated once without
  error; on the result the classification is indeed absent, and for that very reason
  the second decoration throws the TypeError of claim C1.
\<close>

theorem second_decoration_throws:
  "updateMenuItems P cfg
     [MenuNode (IdString ''a'') ''A'' None None None (Some ''AAAA'') None None]
   = ([], Inr [MenuNode (IdString ''a'') ''A'' None None None None None
                 (Some (Fulfilled (Some ''AAAA'')))])
   \<and> type (imageInfoOf P cfg (MenuNode (IdString ''a'') ''A'' None None None None None
                 (Some (Fulfilled (Some ''AAAA''))))) = Absent
   \<and> updateMenuItems P cfg
       [MenuNode (IdString ''a'') ''A'' None None None None None
          (Some (Fulfilled (Some ''AAAA'')))]
     = ([], Inl TypeError)"
proof -
  have "updateMenuItem P cfg
          (MenuNode (IdString ''a'') ''A'' None None None (Some ''AAAA'') None None)
        = ([], Inr (MenuNode (IdString ''a'') ''A'' None None None None None
                     (Some (Fulfilled (Some ''AAAA'')))))"
    by (simp add: updateMenuItem.simps imageInfoOf_def
      convertImageUrlToBase64_def truthy_def orElse_def cutBase64DataType_def
      deleteItemProperties_def hasLength_def Let_def)
  then show ?thesis
    by (simp add: updateMenuItem_absent imageInfoOf_no_fields)
qed

subsection \<open>Flattening\<close>












subsection \<open>Strings\<close>

lemma includesStr_single: "includesStr s [d] = (d \<in> set s)"
  by (induction s) auto

lemma startsWith_take: "startsWith s p = (take (length p) s = p)"
  by (induction s p rule: startsWith.induct) auto

lemma includesStr_self: "includesStr sep sep"
  by (cases sep) (auto simp: startsWith_take)

lemma includesStr_append_self: "includesStr (p @ sep) sep"
  by (induction p) (auto simp: includesStr_self)

lemma splitStr_not_Nil: "splitStr sep s \<noteq> []"
  by (induction sep s rule: splitStr.induct) (auto split: list.splits)

lemma splitStr_single_absent: "d \<notin> set s \<Longrightarrow> splitStr [d] s = [s]"
  by (induction s) auto

lemma splitStr_single_append:
  "splitStr [d] (a @ d # b) = splitStr [d] a @ splitStr [d] b"
  by (induction a) (auto split: list.splits simp: splitStr_not_Nil)

text \<open>
  A separator that occurs at the end of a string and nowhere before cuts it into the
  part before the separator and an empty part.
\<close>

lemma splitStr_marker_end:
  assumes "sep \<noteq> []" and "\<not> includesStr (p @ butlast sep) sep"
  shows "splitStr sep (p @ sep) = [p, []]"
  using assms
proof (induction p)
  case Nil
  then obtain c cs where "sep = c # cs" by (cases sep) auto
  then show ?case by (simp add: startsWith_take)
next
  case (Cons a p)
  have n1: "\<not> startsWith (a # p @ butlast sep) sep"
    and n2: "\<not> includesStr (p @ butlast sep) sep"
    using Cons.prems(2) by auto
  have "take (length sep) ((a # p) @ sep) = take (length sep) ((a # p) @ butlast sep)"
  proof -
    have "(a # p) @ sep = ((a # p) @ butlast sep) @ [last sep]"
      using Cons.prems(1) by simp
    moreover have "length sep \<le> length ((a # p) @ butlast sep)" by simp
    ultimately show ?thesis by (metis append_Nil2 diff_is_0_eq' take_0 take_append)
  qed
  then have n3: "\<not> startsWith (a # p @ sep) sep"
    using n1 by (simp add: startsWith_take del: take_append)
  show ?case using n3 Cons.IH[OF Cons.prems(1) n2] by simp
qed

lemma showNat_digits: "set (showNat n) \<subseteq> set ''0123456789''"
proof (induction n rule: showNat.induct)
  case (1 n)
  have d: "\<And>k. k < 10 \<Longrightarrow> ''0123456789'' ! k \<in> set ''0123456789''"
    by (rule nth_mem) simp
  show ?case
  proof (cases "n < 10")
    case True
    then show ?thesis using d[of n] by (subst showNat.simps) simp
  next
    case False
    then show ?thesis using 1 d[of "n mod 10"] by (subst showNat.simps) simp
  qed
qed

lemma slash_notin_showInt: "CHR ''/'' \<notin> set (showInt w)"
  using showNat_digits[of "nat w"] showNat_digits[of "nat (- w)"]
  by (auto simp: showInt_def)

lemma slash_notin_segment:
  "CHR ''/'' \<notin> set (if w = 400 then ''default'' else ''wght'' @ showInt w)"
  by (simp add: slash_notin_showInt)

lemma segments_tail:
  assumes "CHR ''/'' \<notin> set seg"
  shows "splitStr ''/'' (a @ ''/'' @ seg @ ''/48px.svg'')
           = splitStr ''/'' a @ [seg, ''48px.svg'']"
proof -
  have "splitStr ''/'' (a @ ''/'' @ seg @ ''/48px.svg'')
        = splitStr ''/'' a @ splitStr ''/'' (seg @ CHR ''/'' # ''48px.svg'')"
    using splitStr_single_append[of "CHR ''/''" a "seg @ ''/48px.svg''"] by simp
  also have "splitStr ''/'' (seg @ CHR ''/'' # ''48px.svg'')
               = splitStr ''/'' seg @ splitStr ''/'' ''48px.svg''"
    by (rule splitStr_single_append)
  also have "splitStr ''/'' seg = [seg]" using assms by (rule splitStr_single_absent)
  also have "splitStr ''/'' ''48px.svg'' = [''48px.svg'']"
    by (rule splitStr_single_absent) simp
  finally show ?thesis by simp
qed

lemma host_segments:
  "splitStr ''/'' (iconHost @ ''rounded'') =
     [''https:'', [], ''fonts.gstatic.com'', ''s'', ''i'', ''short-term'', ''release'',
      ''materialsymbolsrounded'']"
  by (simp add: iconHost_def)

lemma nthOpt_prefix: "i < length xs \<Longrightarrow> nthOpt (xs @ ys) i = Some (xs ! i)"
  by (simp add: nthOpt_def nth_append)

lemma link_pieces:
  assumes "CHR ''/'' \<notin> set s"
  shows "jsSplit (iconHost @ ''rounded/'' @ s @ ''/'' @ seg @ ''/48px.svg'') ''/''
         = [''https:'', [], ''fonts.gstatic.com'', ''s'', ''i'', ''short-term'', ''release'',
            ''materialsymbolsrounded'', s] @ splitStr ''/'' (seg @ ''/48px.svg'')"
proof -
  have "iconHost @ ''rounded/'' @ s @ ''/'' @ seg @ ''/48px.svg''
        = (iconHost @ ''rounded'') @ CHR ''/'' # (s @ CHR ''/'' # (seg @ ''/48px.svg''))"
    by simp
  then have "splitStr ''/'' (iconHost @ ''rounded/'' @ s @ ''/'' @ seg @ ''/48px.svg'')
      = splitStr ''/'' (iconHost @ ''rounded'')
        @ splitStr ''/'' (s @ CHR ''/'' # (seg @ ''/48px.svg''))"
    using splitStr_single_append[of "CHR ''/''" "iconHost @ ''rounded''"
            "s @ CHR ''/'' # (seg @ ''/48px.svg'')"]
    by simp
  also have "splitStr ''/'' (s @ CHR ''/'' # (seg @ ''/48px.svg''))
      = splitStr ''/'' s @ splitStr ''/'' (seg @ ''/48px.svg'')"
    by (rule splitStr_single_append)
  also have "splitStr ''/'' s = [s]" using assms by (rule splitStr_single_absent)
  finally show ?thesis
    by (simp add: host_segments jsSplit_def)
qed

lemma slash_notin_digits:
  "CHR ''/'' \<notin> set (if i = 400 then ''default'' else ''wght'' @ showInt i)"
  by (simp add: slash_notin_showInt)

lemma digitValue_digit: "d < 10 \<Longrightarrow> digitValue (''0123456789'' ! d) = Some d"
proof -
  assume "d < 10"
  then have "d \<in> {0, 1, 2, 3, 4, 5, 6, 7, 8, 9}" by auto
  then show ?thesis by (auto simp: digitValue_def)
qed

text \<open>The digits \<open>showNat\<close> prints are the decimal numeral of the number.\<close>

lemma digitsValue_showNat: "digitsValue 10 (showNat n) = n"
proof (induction n rule: showNat.induct)
  case (1 n)
  show ?case
  proof (cases "n < 10")
    case True
    then show ?thesis
      by (subst showNat.simps) (simp add: digitsValue_def digitValue_digit)
  next
    case False
    then have "digitsValue 10 (showNat (n div 10)) = n div 10" using 1 by simp
    then show ?thesis using False
      by (subst showNat.simps) (simp add: digitsValue_def digitValue_digit)
  qed
qed

subsection \<open>Icon references\<close>

lemma getIconSeparator_None:
  "s \<noteq> [] \<Longrightarrow> \<forall>d\<in>set separators. d \<notin> set s \<Longrightarrow> getIconSeparator (Some s) = None"
  by (simp add: getIconSeparator_def truthy_def find_None_iff includesStr_single)

lemma separator_first:
  assumes "find Q separators = Some d"
  shows "\<exists>i<length separators. separators ! i = d \<and> Q d \<and> (\<forall>j<i. \<not> Q (separators ! j))"
  using assms by (auto simp: find_Some_iff)

lemma getMaterialIcon_link:
  assumes "truthy ref"
  shows "\<exists>name style. getMaterialIcon P cfg ref
           = Some (getMaterialIconLink P name (resolvedWeight cfg ref) style)"
  using assms
  by (auto simp: getMaterialIcon_def resolvedWeight_def Let_def split: option.splits)

lemma getMaterialIcon_truthy:
  assumes "truthy ref"
  shows "\<exists>link. getMaterialIcon P cfg ref = Some link \<and> link \<noteq> []"
  using assms
  by (auto simp: getMaterialIcon_def getMaterialIconLink_def iconHost_def Let_def
        split: option.splits)

lemma link_shape:
  "\<exists>style. getMaterialIconLink P name w st =
     iconHost @ style @ ''/'' @ toString name @ ''/''
       @ (if w = Integer 400 then ''default'' else ''wght'' @ numberToString P w)
       @ ''/48px.svg''"
  by (auto simp: getMaterialIconLink_def Let_def)

text \<open>
  Claim C7, as amended. For a non-empty icon reference with none of the ten delimiter
  characters, resolution returns the link of the rounded style whose icon-name path
  segment is the whole reference and whose weight path segment is that of the
  configured weight \<^verbatim>\<open>ICONS_WEIGHT\<close>: \<^verbatim>\<open>default\<close> when it is 400, as in the default
  configuration, and otherwise \<^verbatim>\<open>wght\<close> followed by the weight as it is printed, which
  for an integer below \<open>2 ^ 53\<close> in magnitude is its decimal digits. The name is the
  ninth piece of the link cut at its slashes, and such a weight segment the tenth.
\<close>

theorem bare_icon_link:
  assumes "s \<noteq> []" and "\<forall>d\<in>set separators. d \<notin> set s"
  shows "\<exists>link. getMaterialIcon P cfg (Some s) = Some link
     \<and> link = iconHost @ ''rounded/'' @ s @ ''/''
           @ (if ICONS_WEIGHT cfg = Integer 400 then ''default''
              else ''wght'' @ numberToString P (ICONS_WEIGHT cfg))
           @ ''/48px.svg''
     \<and> nthOpt (jsSplit link ''/'') 8 = Some s
     \<and> (\<forall>i. ICONS_WEIGHT cfg = Integer i \<and> \<bar>i\<bar> < 2 ^ 53 \<longrightarrow>
            link = iconHost @ ''rounded/'' @ s @ ''/''
                   @ (if i = 400 then ''default'' else ''wght'' @ showInt i)
                   @ ''/48px.svg''
          \<and> nthOpt (jsSplit link ''/'') 9
              = Some (if i = 400 then ''default'' else ''wght'' @ showInt i))"
proof -
  let ?seg = "if ICONS_WEIGHT cfg = Integer 400 then ''default''
              else ''wght'' @ numberToString P (ICONS_WEIGHT cfg)"
  let ?L = "\<lambda>seg. iconHost @ ''rounded/'' @ s @ ''/'' @ seg @ ''/48px.svg''"
  have l: "getMaterialIcon P cfg (Some s) = Some (?L ?seg)"
    using assms
    by (simp add: getMaterialIcon_def getIconSeparator_None truthy_def
          getMaterialIconLink_def toString_def)
  have ns: "CHR ''/'' \<notin> set s" using assms(2) by (simp add: separators_def)
  have n8: "nthOpt (jsSplit (?L ?seg) ''/'') 8 = Some s"
    by (simp only: link_pieces[OF ns]) (subst nthOpt_prefix, simp_all)
  have safe: "\<forall>i. ICONS_WEIGHT cfg = Integer i \<and> \<bar>i\<bar> < 2 ^ 53 \<longrightarrow>
            ?L ?seg = ?L (if i = 400 then ''default'' else ''wght'' @ showInt i)
          \<and> nthOpt (jsSplit (?L ?seg) ''/'') 9
              = Some (if i = 400 then ''default'' else ''wght'' @ showInt i)"
  proof (intro allI impI)
    fix i assume a: "ICONS_WEIGHT cfg = Integer i \<and> \<bar>i\<bar> < 2 ^ 53"
    let ?d = "if i = 400 then ''default'' else ''wght'' @ showInt i"
    have e: "?seg = ?d" using a by (auto simp: numberToString_def)
    have t: "splitStr ''/'' (?d @ ''/48px.svg'') = [?d, ''48px.svg'']"
      using segments_tail[OF slash_notin_digits, of "[]" i]
        splitStr_single_append[of "CHR ''/''" "[]" "?d @ ''/48px.svg''"]
      by simp
    have "nthOpt (jsSplit (?L ?d) ''/'') 9 = Some ?d"
      by (simp only: link_pieces[OF ns] t) (simp add: nthOpt_def)
    then show "?L ?seg = ?L ?d \<and> nthOpt (jsSplit (?L ?seg) ''/'') 9 = Some ?d"
      by (simp only: e)
  qed
  show ?thesis using l n8 safe by blast
qed

theorem bare_icon_link_witness:
  "''edit'' \<noteq> [] \<and> set separators \<inter> set ''edit'' = {}
   \<and> ICONS_WEIGHT defaultConfig = Integer 400
   \<and> getMaterialIcon notFoundPlatform defaultConfig (Some ''edit'')
       = Some ''https://fonts.gstatic.com/s/i/short-term/release/materialsymbolsrounded/edit/default/48px.svg''"
proof -
  have h: "\<forall>d\<in>set separators. d \<notin> set ''edit''" by (simp add: separators_def)
  have w: "ICONS_WEIGHT defaultConfig = Integer 400"
    by (simp add: defaultConfig_def prepareVariables_def orNumber_def)
  from bare_icon_link[of "''edit''" notFoundPlatform defaultConfig, OF _ h] show ?thesis
    using h w by (auto simp: iconHost_def)
qed

text \<open>
  Claim C7, as stated, fails: with the configured weight 700 the bare reference
  \<^verbatim>\<open>edit\<close> resolves to a link whose weight segment is \<^verbatim>\<open>wght700\<close>, not \<^verbatim>\<open>default\<close>.
\<close>

theorem bare_icon_weight_not_default:
  "getMaterialIcon notFoundPlatform
     (prepareVariables
        \<lparr> iconsColor = None, iconsBgColor = None, iconsWeight = Some (Integer 700) \<rparr>)
     (Some ''edit'')
   = Some ''https://fonts.gstatic.com/s/i/short-term/release/materialsymbolsrounded/edit/wght700/48px.svg''
   \<and> nthOpt (jsSplit ''https://fonts.gstatic.com/s/i/short-term/release/materialsymbolsrounded/edit/wght700/48px.svg'' ''/'') 9
       = Some ''wght700''
   \<and> ''wght700'' \<noteq> ''default''"
  by (simp add: getMaterialIcon_def getIconSeparator_def separators_def truthy_def
        prepareVariables_def orNumber_def truthyNumber_def getMaterialIconLink_def
        toString_def iconHost_def numberToString_def showInt_def showNat.simps
        jsSplit_def nthOpt_def)

text \<open>
  Claim C8, as amended. Every icon reference that resolves does so to a link of the
  shape host, style, name, weight segment, \<^verbatim>\<open>48px.svg\<close>. The weight segment is
  \<^verbatim>\<open>default\<close> when the resolved weight is 400; for any other integer weight below
  \<open>2 ^ 53\<close> in magnitude it is \<^verbatim>\<open>wght\<close> followed by the decimal digits of the weight,
  and it is one of the pieces of the link cut at its slashes; for any other weight it
  is \<^verbatim>\<open>wght\<close> followed by the weight as it is printed.
\<close>

theorem weight_segment:
  assumes "truthy ref"
  shows "\<exists>link style name.
           getMaterialIcon P cfg ref = Some link
         \<and> link = iconHost @ style @ ''/'' @ name @ ''/''
                  @ (if resolvedWeight cfg ref = Integer 400 then ''default''
                     else ''wght'' @ numberToString P (resolvedWeight cfg ref))
                  @ ''/48px.svg''
         \<and> (\<forall>i. resolvedWeight cfg ref = Integer i \<and> \<bar>i\<bar> < 2 ^ 53 \<longrightarrow>
                link = iconHost @ style @ ''/'' @ name @ ''/''
                       @ (if i = 400 then ''default'' else ''wght'' @ showInt i)
                       @ ''/48px.svg''
              \<and> (if i = 400 then ''default'' else ''wght'' @ showInt i)
                  \<in> set (jsSplit link ''/''))"
proof -
  let ?w = "resolvedWeight cfg ref"
  let ?seg = "if ?w = Integer 400 then ''default'' else ''wght'' @ numberToString P ?w"
  obtain nm st where l: "getMaterialIcon P cfg ref = Some (getMaterialIconLink P nm ?w st)"
    using getMaterialIcon_link[OF assms] by blast
  obtain style where s: "getMaterialIconLink P nm ?w st =
      iconHost @ style @ ''/'' @ toString nm @ ''/'' @ ?seg @ ''/48px.svg''"
    using link_shape[of P nm ?w st] by blast
  let ?link = "iconHost @ style @ ''/'' @ toString nm @ ''/'' @ ?seg @ ''/48px.svg''"
  have safe: "\<forall>i. ?w = Integer i \<and> \<bar>i\<bar> < 2 ^ 53 \<longrightarrow>
                ?link = iconHost @ style @ ''/'' @ toString nm @ ''/''
                       @ (if i = 400 then ''default'' else ''wght'' @ showInt i)
                       @ ''/48px.svg''
              \<and> (if i = 400 then ''default'' else ''wght'' @ showInt i)
                  \<in> set (jsSplit ?link ''/'')"
  proof (intro allI impI)
    fix i assume a: "?w = Integer i \<and> \<bar>i\<bar> < 2 ^ 53"
    let ?d = "if i = 400 then ''default'' else ''wght'' @ showInt i"
    have e: "?seg = ?d" using a by (auto simp: numberToString_def)
    have "splitStr ''/'' (iconHost @ style @ ''/'' @ toString nm @ ''/'' @ ?d @ ''/48px.svg'')
        = splitStr ''/'' (iconHost @ style @ ''/'' @ toString nm) @ [?d, ''48px.svg'']"
      using segments_tail[OF slash_notin_digits,
              of "iconHost @ style @ ''/'' @ toString nm" i]
      by simp
    then have "?d \<in> set (jsSplit ?link ''/'')"
      unfolding e by (simp add: jsSplit_def)
    then show "?link = iconHost @ style @ ''/'' @ toString nm @ ''/'' @ ?d @ ''/48px.svg''
              \<and> ?d \<in> set (jsSplit ?link ''/'')"
      using e by simp
  qed
  show ?thesis using l s safe by metis
qed

theorem weight_segment_witness:
  "truthy (Some ''edit;red;blue;700;outlined'')
   \<and> resolvedWeight defaultConfig (Some ''edit;red;blue;700;outlined'') = Integer 700
   \<and> \<bar>700 :: int\<bar> < 2 ^ 53
   \<and> getMaterialIcon notFoundPlatform defaultConfig (Some ''edit;red;blue;700;outlined'')
       = Some ''https://fonts.gstatic.com/s/i/short-term/release/materialsymbolsoutlined/edit/wght700/48px.svg''
   \<and> ''wght700'' \<in> set (jsSplit ''https://fonts.gstatic.com/s/i/short-term/release/materialsymbolsoutlined/edit/wght700/48px.svg'' ''/'')"
proof -
  let ?P = notFoundPlatform
  have t: "truthy (Some ''edit;red;blue;700;outlined'')" by (simp add: truthy_def)
  have w: "resolvedWeight defaultConfig (Some ''edit;red;blue;700;outlined'') = Integer 700"
    by (simp add: resolvedWeight_def getIconSeparator_def separators_def truthy_def
          jsSplit_def nthOpt_def parseInt_def toString_def isWhiteSpace_def isDigit_def
          digitValue_def digitsValue_def orWeight_def truthyNumber_def Let_def)
  have s: "showInt 700 = ''700''"
    by (simp add: showInt_def showNat.simps)
  have l: "getMaterialIcon ?P defaultConfig (Some ''edit;red;blue;700;outlined'')
       = Some ''https://fonts.gstatic.com/s/i/short-term/release/materialsymbolsoutlined/edit/wght700/48px.svg''"
    by (simp add: getMaterialIcon_def getIconSeparator_def separators_def truthy_def
          jsSplit_def nthOpt_def parseInt_def toString_def isWhiteSpace_def isDigit_def
          digitValue_def digitsValue_def orWeight_def truthyNumber_def Let_def
          getMaterialIconLink_def numberToString_def iconHost_def s)
  from weight_segment[OF t, of ?P defaultConfig] obtain link style name where
    a: "getMaterialIcon ?P defaultConfig (Some ''edit;red;blue;700;outlined'') = Some link"
    and b: "\<forall>i. resolvedWeight defaultConfig (Some ''edit;red;blue;700;outlined'') = Integer i
               \<and> \<bar>i\<bar> < 2 ^ 53 \<longrightarrow>
                link = iconHost @ style @ ''/'' @ name @ ''/''
                       @ (if i = 400 then ''default'' else ''wght'' @ showInt i)
                       @ ''/48px.svg''
              \<and> (if i = 400 then ''default'' else ''wght'' @ showInt i)
                  \<in> set (jsSplit link ''/'')"
    by blast
  have c: "resolvedWeight defaultConfig (Some ''edit;red;blue;700;outlined'') = Integer 700
             \<and> \<bar>700 :: int\<bar> < 2 ^ 53"
    using w by simp
  from b[rule_format, OF c]
  have "(if (700::int) = 400 then ''default'' else ''wght'' @ showInt 700)
                  \<in> set (jsSplit link ''/'')"
    by (rule conjunct2)
  then have "''wght700'' \<in> set (jsSplit link ''/'')" by (simp add: s)
  moreover have "link = ''https://fonts.gstatic.com/s/i/short-term/release/materialsymbolsoutlined/edit/wght700/48px.svg''"
    using a l by simp
  ultimately show ?thesis using t w l by simp
qed

text \<open>
  Claim C8, as stated, fails for an integer weight from \<open>10 ^ 21\<close> on: the reference
  \<^verbatim>\<open>edit;;;1000000000000000000000\<close> has the integer weight \<open>10 ^ 21\<close>, which is printed
  in exponent form, so the weight segment is \<^verbatim>\<open>wght1e+21\<close>, and the digits of the
  weight appended to \<^verbatim>\<open>wght\<close> are not a segment of the link.
\<close>

theorem large_weight_not_digits:
  "resolvedWeight defaultConfig (Some ''edit;;;1000000000000000000000'')
     = Integer 1000000000000000000000
   \<and> getMaterialIcon notFoundPlatform defaultConfig (Some ''edit;;;1000000000000000000000'')
       = Some ''https://fonts.gstatic.com/s/i/short-term/release/materialsymbolsrounded/edit/wght1e+21/48px.svg''
   \<and> ''wght1000000000000000000000''
       \<notin> set (jsSplit ''https://fonts.gstatic.com/s/i/short-term/release/materialsymbolsrounded/edit/wght1e+21/48px.svg'' ''/'')"
  by (simp add: resolvedWeight_def getMaterialIcon_def getIconSeparator_def separators_def
        truthy_def jsSplit_def nthOpt_def parseInt_def toString_def isWhiteSpace_def
        isDigit_def digitValue_def digitsValue_def orWeight_def truthyNumber_def Let_def
        getMaterialIconLink_def numberToString_def iconHost_def notFoundPlatform_def)

text \<open>
  Claim C9. When an icon reference holds more than one of the delimiter characters,
  the separator is the first character of the list \<^verbatim>\<open>; : | / = + * , . #\<close> that occurs
  in the reference: it occurs, and no character before it in the list does. The choice
  depends on which characters occur, not on where: any string with the same set of
  characters gets the same separator. That separator is the one the name, weight,
  style and colours are split on.
\<close>

theorem separator_by_list_order:
  assumes "1 < length (filter (\<lambda>d. d \<in> set s) separators)"
  shows "\<exists>i<length separators.
           getIconSeparator (Some s) = Some (separators ! i)
         \<and> separators ! i \<in> set s
         \<and> (\<forall>j<i. separators ! j \<notin> set s)
         \<and> (\<forall>s'. set s' = set s \<longrightarrow> getIconSeparator (Some s') = Some (separators ! i))
         \<and> getMaterialIcon P cfg (Some s)
             = Some (getMaterialIconLink P (nthOpt (jsSplit s [separators ! i]) 0)
                       (orWeight (parseInt (nthOpt (jsSplit s [separators ! i]) 3))
                          (ICONS_WEIGHT cfg))
                       (nthOpt (jsSplit s [separators ! i]) 4))
         \<and> getSvgColors (Some s)
             = Some \<lparr> iconColor = nthOpt (jsSplit s [separators ! i]) 1,
                      bgColor = nthOpt (jsSplit s [separators ! i]) 2 \<rparr>"
proof -
  from assms have "filter (\<lambda>d. d \<in> set s) separators \<noteq> []" by auto
  then obtain d where d: "d \<in> set separators" "d \<in> set s"
    by (auto simp: filter_empty_conv)
  then have ne: "s \<noteq> []" by auto
  have "find (\<lambda>d. d \<in> set s) separators \<noteq> None"
    using d by (auto simp: find_None_iff)
  then obtain e where e: "find (\<lambda>d. d \<in> set s) separators = Some e" by auto
  from separator_first[OF e] obtain i where i: "i < length separators"
    "separators ! i = e" "e \<in> set s" "\<forall>j<i. separators ! j \<notin> set s" by blast
  have g: "getIconSeparator (Some s) = Some e"
    using ne e by (simp add: getIconSeparator_def truthy_def includesStr_single)
  have g': "\<forall>s'. set s' = set s \<longrightarrow> getIconSeparator (Some s') = Some e"
  proof (intro allI impI)
    fix s' assume eq: "set s' = set s"
    then have "s' \<noteq> []" using ne by auto
    then show "getIconSeparator (Some s') = Some e"
      using e eq by (simp add: getIconSeparator_def truthy_def includesStr_single)
  qed
  have m: "getMaterialIcon P cfg (Some s)
             = Some (getMaterialIconLink P (nthOpt (jsSplit s [e]) 0)
                       (orWeight (parseInt (nthOpt (jsSplit s [e]) 3)) (ICONS_WEIGHT cfg))
                       (nthOpt (jsSplit s [e]) 4))"
    using ne g by (simp add: getMaterialIcon_def truthy_def Let_def)
  have c: "getSvgColors (Some s)
             = Some \<lparr> iconColor = nthOpt (jsSplit s [e]) 1,
                      bgColor = nthOpt (jsSplit s [e]) 2 \<rparr>"
    using ne g by (simp add: getSvgColors_def truthy_def Let_def)
  show ?thesis using i g g' m c by blast
qed

theorem separator_by_list_order_witness:
  "1 < length (filter (\<lambda>d. d \<in> set ''a.b;c'') separators)
   \<and> getIconSeparator (Some ''a.b;c'') = Some (CHR '';'')
   \<and> getIconSeparator (Some ''a;b.c'') = Some (CHR '';'')"
proof -
  have h: "1 < length (filter (\<lambda>d. d \<in> set ''a.b;c'') separators)"
    by (simp add: separators_def)
  from separator_by_list_order[OF h, of notFoundPlatform defaultConfig] obtain i where
    i: "i < length separators" "getIconSeparator (Some ''a.b;c'') = Some (separators ! i)"
       "\<forall>s'. set s' = set ''a.b;c'' \<longrightarrow> getIconSeparator (Some s') = Some (separators ! i)"
    by blast
  have "set ''a;b.c'' = set ''a.b;c''" by auto
  with i(3) have "getIconSeparator (Some ''a;b.c'') = Some (separators ! i)" by blast
  moreover have "getIconSeparator (Some ''a.b;c'') = Some (CHR '';'')"
    by (simp add: getIconSeparator_def truthy_def separators_def)
  ultimately show ?thesis using h i(2) by simp
qed

subsection \<open>Classification and resolution\<close>


lemma cut_bare_prefix:
  assumes "\<not> includesStr (p @ ''base64'') ''base64,''"
  shows "cutBase64DataType (Some (p @ ''base64,'')) = Some []"
proof -
  have "splitStr ''base64,'' (p @ ''base64,'') = [p, []]"
    using splitStr_marker_end[of "''base64,''" p] assms by simp
  then show ?thesis
    by (simp add: cutBase64DataType_def truthy_def includesStr_append_self jsSplit_def
          nthOpt_def)
qed





text \<open>
  Claim C5. For a node whose inline field is \<^verbatim>\<open>data:image/png;base64,AAAA\<close>, the
  classifier strips the prefix up to and including \<^verbatim>\<open>base64,\<close>: the kind is inline and
  the source is \<^verbatim>\<open>AAAA\<close>. The resolver returns a promise fulfilled with \<^verbatim>\<open>AAAA\<close> and
  performs no effect at all: no request, no recolouring, no encoding, no rasterising.
\<close>

theorem inline_data_resolves_unchanged:
  assumes "base64 n = Some ''data:image/png;base64,AAAA''"
  shows "cutBase64DataType (base64 n) = Some ''AAAA''
       \<and> type (imageInfoOf P cfg n) = Base64
       \<and> source (imageInfoOf P cfg n) = Some ''AAAA''
       \<and> convertImageUrlToBase64 P cfg (imageInfoOf P cfg n)
           = ([], Inr (Fulfilled (Some ''AAAA'')))"
proof -
  have c: "cutBase64DataType (base64 n) = Some ''AAAA''"
    unfolding assms by (simp add: cutBase64DataType_def truthy_def jsSplit_def nthOpt_def)
  have t: "type (imageInfoOf P cfg n) = Base64"
    using assms by (simp add: imageInfoOf_def truthy_def)
  have s: "source (imageInfoOf P cfg n) = Some ''AAAA''"
    using c by (simp add: imageInfoOf_def orElse_def truthy_def)
  show ?thesis using c t s by (simp add: convertImageUrlToBase64_def)
qed

theorem inline_data_resolves_unchanged_witness:
  "base64 (MenuNode (IdString ''a'') ''A'' None None None
             (Some ''data:image/png;base64,AAAA'') None None)
     = Some ''data:image/png;base64,AAAA''
   \<and> updateMenuItems notFoundPlatform defaultConfig
        [MenuNode (IdString ''a'') ''A'' None None None
           (Some ''data:image/png;base64,AAAA'') None None]
      = ([], Inr [MenuNode (IdString ''a'') ''A'' None None None None None
                    (Some (Fulfilled (Some ''AAAA'')))])"
proof -
  let ?n = "MenuNode (IdString ''a'') ''A'' None None None
             (Some ''data:image/png;base64,AAAA'') None None"
  have a: "base64 ?n = Some ''data:image/png;base64,AAAA''" by simp
  from inline_data_resolves_unchanged[OF a, of notFoundPlatform defaultConfig]
  show ?thesis
    by (simp add: updateMenuItem.simps deleteItemProperties_def hasLength_def truthy_def
          Let_def)
qed

text \<open>
  Claim C6. When the image is a vector reference or a remote link and the request is
  answered with a status other than 200, the resolution returns, without throwing, a
  promise fulfilled with the empty string, and the request is the only effect: no
  recolouring, no encoding and no rasterising takes place.
\<close>

theorem failed_fetch_resolves_empty:
  assumes "type img = Svg \<or> type img = Jpg"
      and "IMAGE_DATA_INFO (type img) = Some info"
      and "xhrSend P (toString (source img)) (mimeType info) = Response status body"
      and "status \<noteq> 200"
  shows "convertImageUrlToBase64 P cfg img
           = ([Fetch (toString (source img)) (mimeType info)], Inr (Fulfilled (Some [])))"
  using assms
  by (auto simp: convertImageUrlToBase64_def getImageFromUrl_def truthy_def Let_def)

theorem failed_fetch_resolves_empty_witness:
  "(type (imageInfoOf notFoundPlatform defaultConfig
            (MenuNode (IdString ''a'') ''A'' None None (Some ''edit'') None None None)) = Svg
      \<or> type (imageInfoOf notFoundPlatform defaultConfig
            (MenuNode (IdString ''a'') ''A'' None None (Some ''edit'') None None None)) = Jpg)
   \<and> (404::nat) \<noteq> 200
   \<and> updateMenuItems notFoundPlatform defaultConfig
        [MenuNode (IdString ''a'') ''A'' None None (Some ''edit'') None None None]
      = ([Fetch ''https://fonts.gstatic.com/s/i/short-term/release/materialsymbolsrounded/edit/default/48px.svg''
            ''image/svg+xml''],
         Inr [MenuNode (IdString ''a'') ''A'' None None None None None
                (Some (Fulfilled (Some [])))])"
proof -
  let ?n = "MenuNode (IdString ''a'') ''A'' None None (Some ''edit'') None None None"
  let ?img = "imageInfoOf notFoundPlatform defaultConfig ?n"
  let ?info = "\<lparr> base64Data = ''image/svg+xml'', mimeType = ''image/svg+xml'' \<rparr>"
  have t: "type ?img = Svg" by (simp add: imageInfoOf_def truthy_def)
  have s: "source ?img = Some ''https://fonts.gstatic.com/s/i/short-term/release/materialsymbolsrounded/edit/default/48px.svg''"
    by (simp add: imageInfoOf_def orElse_def cutBase64DataType_def
          getMaterialIcon_def getIconSeparator_def separators_def truthy_def
          defaultConfig_def prepareVariables_def orNumber_def getMaterialIconLink_def toString_def
          iconHost_def)
  have i: "IMAGE_DATA_INFO (type ?img) = Some ?info"
    by (simp add: t IMAGE_DATA_INFO_def)
  have x: "xhrSend notFoundPlatform (toString (source ?img)) (mimeType ?info)
             = Response 404 ''Not Found''"
    by (simp add: notFoundPlatform_def)
  have "convertImageUrlToBase64 notFoundPlatform defaultConfig ?img
          = ([Fetch (toString (source ?img)) (mimeType ?info)], Inr (Fulfilled (Some [])))"
    by (rule failed_fetch_resolves_empty[OF _ i x]) (simp_all add: t)
  then show ?thesis using t
    by (simp add: s toString_def updateMenuItem.simps deleteItemProperties_def
          hasLength_def truthy_def Let_def)
qed

text \<open>
  Claim C10. Take a node whose inline field is a bare data-URL prefix, a string that
  ends in \<^verbatim>\<open>base64,\<close> with nothing after that marker (the marker does not occur before
  its final comma), and whose icon reference is set. The kind is inline, yet the
  stripped payload is empty, so the source falls through to the link generated for the
  icon; the resolution is a promise fulfilled with that link itself, a non-empty string,
  and no request and no image processing takes place.
\<close>

theorem empty_inline_falls_through:
  assumes "base64 n = Some (p @ ''base64,'')"
      and "\<not> includesStr (p @ ''base64'') ''base64,''"
      and "truthy (icon n)"
  shows "type (imageInfoOf P cfg n) = Base64
       \<and> source (imageInfoOf P cfg n) = getMaterialIcon P cfg (icon n)
       \<and> (\<exists>link. getMaterialIcon P cfg (icon n) = Some link \<and> link \<noteq> []
             \<and> convertImageUrlToBase64 P cfg (imageInfoOf P cfg n)
                 = ([], Inr (Fulfilled (Some link))))"
proof -
  obtain link where l: "getMaterialIcon P cfg (icon n) = Some link" "link \<noteq> []"
    using getMaterialIcon_truthy[OF assms(3)] by blast
  have t: "type (imageInfoOf P cfg n) = Base64"
    using assms(1) by (simp add: imageInfoOf_def truthy_def)
  have s: "source (imageInfoOf P cfg n) = getMaterialIcon P cfg (icon n)"
    using assms(1) l cut_bare_prefix[OF assms(2)]
    by (simp add: imageInfoOf_def orElse_def truthy_def)
  show ?thesis using t s l by (simp add: convertImageUrlToBase64_def)
qed

theorem empty_inline_falls_through_witness:
  "base64 (MenuNode (IdString ''a'') ''A'' None None (Some ''edit'')
             (Some (''data:image/png;'' @ ''base64,'')) None None)
     = Some (''data:image/png;'' @ ''base64,'')
   \<and> \<not> includesStr (''data:image/png;'' @ ''base64'') ''base64,''
   \<and> truthy (icon (MenuNode (IdString ''a'') ''A'' None None (Some ''edit'')
             (Some (''data:image/png;'' @ ''base64,'')) None None))
   \<and> convertImageUrlToBase64 notFoundPlatform defaultConfig
        (imageInfoOf notFoundPlatform defaultConfig
           (MenuNode (IdString ''a'') ''A'' None None (Some ''edit'')
              (Some (''data:image/png;'' @ ''base64,'')) None None))
      = ([], Inr (Fulfilled (Some ''https://fonts.gstatic.com/s/i/short-term/release/materialsymbolsrounded/edit/default/48px.svg'')))"
proof -
  let ?n = "MenuNode (IdString ''a'') ''A'' None None (Some ''edit'')
             (Some (''data:image/png;'' @ ''base64,'')) None None"
  have a: "base64 ?n = Some (''data:image/png;'' @ ''base64,'')" by simp
  have b: "\<not> includesStr (''data:image/png;'' @ ''base64'') ''base64,''" by simp
  have c: "truthy (icon ?n)" by (simp add: truthy_def)
  have l: "getMaterialIcon notFoundPlatform defaultConfig (icon ?n) = Some ''https://fonts.gstatic.com/s/i/short-term/release/materialsymbolsrounded/edit/default/48px.svg''"
    by (simp add: getMaterialIcon_def getIconSeparator_def separators_def truthy_def
          defaultConfig_def prepareVariables_def orNumber_def getMaterialIconLink_def toString_def
          iconHost_def)
  from empty_inline_falls_through[OF a b c, of notFoundPlatform defaultConfig]
  show ?thesis
    using a b c l by auto
qed

end
